theory Spec2Isabelle
  imports Complex_Main
begin

section \<open>JavaScript values\<close>

text \<open>
  A JavaScript number is an IEEE 754 binary64 value. \<open>Fin s m\<close> is the finite value with
  sign \<open>s\<close> (\<open>True\<close> for negative) and magnitude \<open>m\<close>, a non-negative rational;
  \<open>Fin True 0\<close> is the negative zero. \<open>Infinity s\<close> is the infinity of sign \<open>s\<close>.
\<close>

datatype jsnum = NaN | Infinity bool | Fin bool rat

text \<open>
  The values \<open>response.json()\<close> and a property read can give. An object is the list of
  its own properties in insertion order; its keys are distinct, so \<open>map_of\<close> reads it.
\<close>

datatype json =
    JUndefined
  | JNull
  | JBool bool
  | JNum jsnum
  | JStr string
  | JArr "json list"
  | JObj "(string \<times> json) list"

text \<open>What an exception of the client can be.\<close>

datatype js_error =
    Error string   \<comment> \<open>\<open>new Error(message)\<close>\<close>
  | AbortError     \<comment> \<open>the \<open>DOMException\<close> of an aborted \<open>fetch\<close>\<close>
  | SyntaxError    \<comment> \<open>\<open>response.json()\<close> on a body that is not JSON\<close>
  | TypeError      \<comment> \<open>a failed \<open>fetch\<close>, or a property read on \<open>null\<close> or \<open>undefined\<close>\<close>

text \<open>ToBoolean.\<close>

fun truthy :: "json \<Rightarrow> bool" where
  "truthy JUndefined = False"
| "truthy JNull = False"
| "truthy (JBool b) = b"
| "truthy (JNum NaN) = False"
| "truthy (JNum (Infinity s)) = True"
| "truthy (JNum (Fin s m)) = (m \<noteq> 0)"
| "truthy (JStr s) = (s \<noteq> [])"
| "truthy (JArr xs) = True"
| "truthy (JObj fs) = True"

text \<open>
  The property read \<open>v.k\<close>, for the keys the client reads (\<open>dashboard\<close>, \<open>expenses\<close>,
  \<open>authenticated\<close>, \<open>user\<close>), none of which a prototype defines: an object gives its own
  property or \<open>undefined\<close>, \<open>null\<close> and \<open>undefined\<close> throw, every other value gives
  \<open>undefined\<close>.
\<close>

fun get_prop :: "json \<Rightarrow> string \<Rightarrow> js_error + json" where
  "get_prop JUndefined k = Inl TypeError"
| "get_prop JNull k = Inl TypeError"
| "get_prop (JObj fs) k = Inr (case map_of fs k of None \<Rightarrow> JUndefined | Some v \<Rightarrow> v)"
| "get_prop v k = Inr JUndefined"

text \<open>\<open>a || b\<close>.\<close>

definition js_or :: "json \<Rightarrow> json \<Rightarrow> json" where
  "js_or a b = (if truthy a then a else b)"

section \<open>Number arithmetic\<close>

text \<open>
  Every arithmetic result is rounded to binary64, to nearest with ties to even. \<open>binade m\<close>
  is the exponent \<open>e\<close> with \<open>2 ^ e \<le> m < 2 ^ (e + 1)\<close>, kept between the least exponent
  -1022 (below it the values are subnormal) and the greatest 1023; the values of a binade
  are the multiples of \<open>2 ^ (e - 52)\<close>. A magnitude that rounds to \<open>2 ^ 53\<close> such multiples
  in the greatest binade, that is to \<open>2 ^ 1024\<close> or more, gives an infinity.
\<close>

definition pow2 :: "int \<Rightarrow> rat" where
  "pow2 e = (if 0 \<le> e then 2 ^ nat e else 1 / 2 ^ nat (- e))"

function exp_up :: "rat \<Rightarrow> int \<Rightarrow> int" where
  "exp_up m e = (if e < 1023 \<and> pow2 (e + 1) \<le> m then exp_up m (e + 1) else e)"
  by pat_completeness auto
termination
  by (relation "measure (\<lambda>(m, e). nat (1023 - e))") auto

function exp_down :: "rat \<Rightarrow> int \<Rightarrow> int" where
  "exp_down m e = (if - 1022 < e \<and> m < pow2 e then exp_down m (e - 1) else e)"
  by pat_completeness auto
termination
  by (relation "measure (\<lambda>(m, e). nat (e + 1022))") auto

definition binade :: "rat \<Rightarrow> int" where
  "binade m = (if 1 \<le> m then exp_up m 0 else exp_down m (- 1))"

definition round_half_even :: "rat \<Rightarrow> int" where
  "round_half_even x =
     (let n = \<lfloor>x\<rfloor>; d = x - of_int n
      in if d < 1 / 2 then n else if 1 / 2 < d then n + 1 else if even n then n else n + 1)"

text \<open>The binary64 value nearest to the magnitude \<open>m\<close>, with the sign \<open>s\<close>.\<close>

definition fl :: "bool \<Rightarrow> rat \<Rightarrow> jsnum" where
  "fl s m =
     (let e = binade m;
          n = round_half_even (m / pow2 (e - 52))
      in if e = 1023 \<and> 2 ^ 53 \<le> n then Infinity s else Fin s (of_int n * pow2 (e - 52)))"

definition value_of :: "bool \<Rightarrow> rat \<Rightarrow> rat" where
  "value_of s m = (if s then - m else m)"

text \<open>\<open>x + y\<close>, \<open>x * y\<close>, \<open>x / y\<close> and \<open>x > y\<close> on numbers.\<close>

fun js_add :: "jsnum \<Rightarrow> jsnum \<Rightarrow> jsnum" where
  "js_add NaN y = NaN"
| "js_add x NaN = NaN"
| "js_add (Infinity s) (Infinity s') = (if s = s' then Infinity s else NaN)"
| "js_add (Infinity s) (Fin s' m') = Infinity s"
| "js_add (Fin s m) (Infinity s') = Infinity s'"
| "js_add (Fin s m) (Fin s' m') =
     (let v = value_of s m + value_of s' m'
      in if v = 0 then Fin (s \<and> s') 0 else fl (v < 0) \<bar>v\<bar>)"

fun js_mul :: "jsnum \<Rightarrow> jsnum \<Rightarrow> jsnum" where
  "js_mul NaN y = NaN"
| "js_mul x NaN = NaN"
| "js_mul (Infinity s) (Infinity s') = Infinity (s \<noteq> s')"
| "js_mul (Infinity s) (Fin s' m') = (if m' = 0 then NaN else Infinity (s \<noteq> s'))"
| "js_mul (Fin s m) (Infinity s') = (if m = 0 then NaN else Infinity (s \<noteq> s'))"
| "js_mul (Fin s m) (Fin s' m') = fl (s \<noteq> s') (m * m')"

fun js_div :: "jsnum \<Rightarrow> jsnum \<Rightarrow> jsnum" where
  "js_div NaN y = NaN"
| "js_div x NaN = NaN"
| "js_div (Infinity s) (Infinity s') = NaN"
| "js_div (Infinity s) (Fin s' m') = Infinity (s \<noteq> s')"
| "js_div (Fin s m) (Infinity s') = Fin (s \<noteq> s') 0"
| "js_div (Fin s m) (Fin s' m') =
     (if m' = 0 then (if m = 0 then NaN else Infinity (s \<noteq> s')) else fl (s \<noteq> s') (m / m'))"

fun js_gt :: "jsnum \<Rightarrow> jsnum \<Rightarrow> bool" where
  "js_gt NaN y = False"
| "js_gt x NaN = False"
| "js_gt (Infinity s) (Infinity s') = (\<not> s \<and> s')"
| "js_gt (Infinity s) (Fin s' m') = (\<not> s)"
| "js_gt (Fin s m) (Infinity s') = s'"
| "js_gt (Fin s m) (Fin s' m') = (value_of s' m' < value_of s m)"

text \<open>A non-negative integer literal, and the \<open>length\<close> of an array, as a number.\<close>

definition js_nat :: "nat \<Rightarrow> jsnum" where
  "js_nat n = Fin False (of_nat n)"

text \<open>
  What the platform supplies and the model takes as given: \<open>Number::toString\<close> on the
  magnitudes from \<open>10 ^ 21\<close> on, which are written with an exponent, and the \<open>format\<close> of
  the \<open>Intl.NumberFormat\<close> for rupees in the locale \<open>en-IN\<close>.
\<close>

record platform =
  number_toString :: "rat \<Rightarrow> string"
  intl_format :: "jsnum \<Rightarrow> string"

definition digit_char :: "nat \<Rightarrow> char" where
  "digit_char d = ''0123456789'' ! d"

fun decimal :: "nat \<Rightarrow> string" where
  "decimal n = (if n < 10 then [digit_char n] else decimal (n div 10) @ [digit_char (n mod 10)])"

text \<open>
  \<open>x.toFixed(1)\<close>: a number that is not finite prints as its name; a magnitude of
  \<open>10 ^ 21\<close> or more prints as \<open>Number::toString\<close> prints it; otherwise the integer \<open>n\<close>
  nearest to ten times the magnitude (the larger of two nearest) is written in decimal,
  padded to two digits, with a point before the last digit. A value below zero gets a
  minus sign.
\<close>

definition toFixed1 :: "platform \<Rightarrow> jsnum \<Rightarrow> string" where
  "toFixed1 pf x =
     (case x of
        NaN \<Rightarrow> ''NaN''
      | Infinity s \<Rightarrow> (if s then ''-Infinity'' else ''Infinity'')
      | Fin s m \<Rightarrow>
          (if s \<and> m \<noteq> 0 then ''-'' else [])
          @ (if 10 ^ 21 \<le> m then number_toString pf m
             else (let n = nat \<lfloor>m * 10 + 1 / 2\<rfloor>;
                       digits = decimal n;
                       digits = (if length digits \<le> 1 then ''0'' @ digits else digits)
                   in butlast digits @ ''.'' @ [last digits])))"

section \<open>Requests, responses and promises\<close>

datatype http_method = GET | POST

text \<open>
  The request \<open>fetch\<close> is called with: \<open>verb\<close> is its HTTP verb, \<open>payload\<close> is the
  value whose \<open>JSON.stringify\<close> text is the body, and \<open>signal\<close> is the abort signal
  passed along: \<open>None\<close> when there is none, \<open>Some d\<close> for the signal of a controller that
  a \<open>setTimeout\<close> callback aborts after \<open>d\<close> milliseconds unless the timer is cleared
  first.
\<close>

record request =
  verb :: http_method
  url :: string
  headers :: "(string \<times> string) list"
  payload :: "json option"
  signal :: "nat option"

text \<open>
  What becomes of the body of a response once its headers are there: it arrives whole,
  it never arrives, or the connection breaks while it is read.
\<close>

datatype 'a delivery = Arrived 'a | Stalled | Broken

text \<open>
  A response, as the promise of \<open>fetch\<close> resolves to it when the headers arrive: its
  status, and what \<open>response.json()\<close> is given to parse (\<open>Arrived None\<close> when the body
  arrives and is not JSON). \<open>response.ok\<close> is a status from 200 to 299.
\<close>

record response =
  status :: nat
  parsed :: "json option delivery"

definition ok :: "response \<Rightarrow> bool" where
  "ok r = (200 \<le> status r \<and> status r \<le> 299)"

text \<open>
  What the network does with a request: it never answers, it fails after some
  milliseconds, or the headers of its answer arrive after some milliseconds.
\<close>

datatype network = Silent | Unreachable nat | Responds nat response

text \<open>The network that does the same with every request.\<close>

definition always :: "network \<Rightarrow> request \<Rightarrow> network" where
  "always n req = n"

text \<open>A promise settles with a value, settles with an exception, or never settles.\<close>

datatype 'a promise = Resolved 'a | Rejected js_error | Pending

fun then_promise :: "'a promise \<Rightarrow> ('a \<Rightarrow> 'b promise) \<Rightarrow> 'b promise" where
  "then_promise (Resolved x) f = f x"
| "then_promise (Rejected e) f = Rejected e"
| "then_promise Pending f = Pending"

fun of_result :: "js_error + 'a \<Rightarrow> 'a promise" where
  "of_result (Inl e) = Rejected e"
| "of_result (Inr x) = Resolved x"

text \<open>
  \<open>await fetch(...)\<close>, with the \<open>clearTimeout\<close> that follows it on either path. The
  result says whether the timer of the signal fired, aborting the request, and how the
  promise of \<open>fetch\<close> settles. The headers of an answer, or a failure, no later than the
  timer settle the promise first, and the timer is then cleared: nothing aborts the
  reading of the body that follows.
\<close>

fun await_fetch :: "network \<Rightarrow> nat option \<Rightarrow> bool \<times> response promise" where
  "await_fetch Silent None = (False, Pending)"
| "await_fetch Silent (Some d) = (True, Rejected AbortError)"
| "await_fetch (Unreachable t) None = (False, Rejected TypeError)"
| "await_fetch (Unreachable t) (Some d) =
     (if t \<le> d then (False, Rejected TypeError) else (True, Rejected AbortError))"
| "await_fetch (Responds t r) None = (False, Resolved r)"
| "await_fetch (Responds t r) (Some d) =
     (if t \<le> d then (False, Resolved r) else (True, Rejected AbortError))"

definition fetch :: "(request \<Rightarrow> network) \<Rightarrow> request \<Rightarrow> bool \<times> response promise" where
  "fetch server req = await_fetch (server req) (signal req)"

text \<open>
  \<open>await response.json()\<close>: it reads the body to its end and parses it. It stays pending
  while the body does not arrive, and rejects with a type error when the read breaks and
  with a syntax error when the text is not JSON.
\<close>

definition response_json :: "response \<Rightarrow> json promise" where
  "response_json r =
     (case parsed r of
        Arrived None \<Rightarrow> Rejected SyntaxError
      | Arrived (Some j) \<Rightarrow> Resolved j
      | Stalled \<Rightarrow> Pending
      | Broken \<Rightarrow> Rejected TypeError)"

text \<open>
  One run of an operation of the client: the request it issued, whether it aborted the
  request, and how the promise it returns settles.
\<close>

record 'a run =
  issued :: request
  aborted :: bool
  outcome :: "'a promise"

section \<open>The API service\<close>

definition API_BASE :: string where
  "API_BASE = ''/api''"

subsection \<open>fetchDashboard\<close>

text \<open>The unwrap step of \<open>fetchDashboard\<close>: \<open>json.dashboard || json\<close>.\<close>

definition unwrap_dashboard :: "json \<Rightarrow> js_error + json" where
  "unwrap_dashboard j =
     (case get_prop j ''dashboard'' of Inl e \<Rightarrow> Inl e | Inr d \<Rightarrow> Inr (js_or d j))"

definition fetchDashboard :: "(request \<Rightarrow> network) \<Rightarrow> json run" where
  "fetchDashboard server =
     (let req = \<lparr>verb = GET, url = API_BASE @ ''/dashboard'', headers = [],
                 payload = None, signal = Some 5000\<rparr>;
          (fired, settled) = fetch server req
      in \<lparr>issued = req, aborted = fired,
          outcome = then_promise settled (\<lambda>response.
            if \<not> ok response then Rejected (Error ''Failed to fetch dashboard data'')
            else then_promise (response_json response) (\<lambda>j. of_result (unwrap_dashboard j)))\<rparr>)"

subsection \<open>fetchExpenses\<close>

text \<open>
  \<open>URLSearchParams\<close>: a list of name-value pairs. \<open>set\<close> replaces the value of the first
  pair of that name and removes the others of that name, or appends a new pair.
\<close>

type_synonym search_params = "(string \<times> string) list"

fun sp_set :: "search_params \<Rightarrow> string \<Rightarrow> string \<Rightarrow> search_params" where
  "sp_set [] k v = [(k, v)]"
| "sp_set ((k', v') # ps) k v =
     (if k' = k then (k, v) # filter (\<lambda>p. fst p \<noteq> k) ps else (k', v') # sp_set ps k v)"

text \<open>
  A string is the list of the bytes of its UTF-8 encoding, which is what the serializer
  works on. \<open>toString\<close> of \<open>URLSearchParams\<close> is the \<open>application/x-www-form-urlencoded\<close>
  serializer: of the bytes of a name or a value, the ASCII letters and digits and
  \<open>* - . _\<close> stay, a space becomes \<open>+\<close>, and every other byte becomes \<open>%\<close> and its two
  upper-case hexadecimal digits; pairs are written \<open>name=value\<close> and joined by \<open>&\<close>.
\<close>

definition form_safe :: "char \<Rightarrow> bool" where
  "form_safe c =
     (let n = (of_char c :: nat)
      in (48 \<le> n \<and> n \<le> 57) \<or> (65 \<le> n \<and> n \<le> 90) \<or> (97 \<le> n \<and> n \<le> 122)
         \<or> c = CHR ''*'' \<or> c = CHR ''-'' \<or> c = CHR ''.'' \<or> c = CHR ''_'')"

definition hex_digit :: "nat \<Rightarrow> char" where
  "hex_digit n = ''0123456789ABCDEF'' ! n"

definition form_encode_byte :: "char \<Rightarrow> string" where
  "form_encode_byte c =
     (if c = CHR '' '' then ''+''
      else if form_safe c then [c]
      else [CHR ''%'', hex_digit (of_char c div 16), hex_digit (of_char c mod 16)])"

definition form_encode :: "string \<Rightarrow> string" where
  "form_encode s = concat (map form_encode_byte s)"

fun form_serialize :: "search_params \<Rightarrow> string" where
  "form_serialize [] = []"
| "form_serialize [(k, v)] = form_encode k @ ''='' @ form_encode v"
| "form_serialize ((k, v) # p # ps) =
     form_encode k @ ''='' @ form_encode v @ ''&'' @ form_serialize (p # ps)"

text \<open>The optional argument of \<open>fetchExpenses\<close>; an absent field is \<open>None\<close>.\<close>

record expense_params =
  year :: "string option"
  month :: "string option"
  category :: "string option"

text \<open>\<open>params?.f\<close>, and \<open>if (x) searchParams.set(name, x)\<close> for an optional string \<open>x\<close>.\<close>

definition opt_chain :: "'a option \<Rightarrow> ('a \<Rightarrow> 'b option) \<Rightarrow> 'b option" where
  "opt_chain p f = (case p of None \<Rightarrow> None | Some r \<Rightarrow> f r)"

definition set_if_truthy :: "search_params \<Rightarrow> string \<Rightarrow> string option \<Rightarrow> search_params" where
  "set_if_truthy sp name x =
     (case x of None \<Rightarrow> sp | Some v \<Rightarrow> if v \<noteq> [] then sp_set sp name v else sp)"

definition expenses_search_params :: "expense_params option \<Rightarrow> search_params" where
  "expenses_search_params params =
     (let searchParams = [];
          searchParams = set_if_truthy searchParams ''year'' (opt_chain params year);
          searchParams = set_if_truthy searchParams ''month'' (opt_chain params month);
          searchParams = set_if_truthy searchParams ''category'' (opt_chain params category)
      in searchParams)"

definition expenses_url :: "expense_params option \<Rightarrow> string" where
  "expenses_url params =
     (let searchParams = expenses_search_params params
      in if form_serialize searchParams \<noteq> []
         then API_BASE @ ''/expenses?'' @ form_serialize searchParams
         else API_BASE @ ''/expenses'')"

definition fetchExpenses :: "expense_params option \<Rightarrow> (request \<Rightarrow> network) \<Rightarrow> json run" where
  "fetchExpenses params server =
     (let req = \<lparr>verb = GET, url = expenses_url params, headers = [],
                 payload = None, signal = None\<rparr>;
          (fired, settled) = fetch server req
      in \<lparr>issued = req, aborted = fired,
          outcome = then_promise settled (\<lambda>response.
            if \<not> ok response then Rejected (Error ''Failed to fetch expenses'')
            else then_promise (response_json response) (\<lambda>j.
              of_result (case get_prop j ''expenses'' of
                           Inl e \<Rightarrow> Inl e
                         | Inr x \<Rightarrow> Inr (js_or x (JArr [])))))\<rparr>)"

subsection \<open>syncExpenses\<close>

text \<open>The argument is \<open>None\<close> when the caller gives none; the default is 30.\<close>

definition syncExpenses :: "jsnum option \<Rightarrow> (request \<Rightarrow> network) \<Rightarrow> json run" where
  "syncExpenses arg server =
     (let daysBack = (case arg of None \<Rightarrow> Fin False 30 | Some d \<Rightarrow> d);
          req = \<lparr>verb = POST, url = API_BASE @ ''/sync'',
                 headers = [(''Content-Type'', ''application/json'')],
                 payload = Some (JObj [(''days_back'', JNum daysBack)]), signal = None\<rparr>;
          (fired, settled) = fetch server req
      in \<lparr>issued = req, aborted = fired,
          outcome = then_promise settled (\<lambda>response.
            if \<not> ok response then Rejected (Error ''Failed to sync expenses'')
            else response_json response)\<rparr>)"

subsection \<open>fetchAuthStatus\<close>

record AuthStatus =
  authenticated :: json
  user :: json

definition fetchAuthStatus :: "(request \<Rightarrow> network) \<Rightarrow> AuthStatus run" where
  "fetchAuthStatus server =
     (let req = \<lparr>verb = GET, url = API_BASE @ ''/auth/status'', headers = [],
                 payload = None, signal = None\<rparr>;
          (fired, settled) = fetch server req
      in \<lparr>issued = req, aborted = fired,
          outcome = then_promise settled (\<lambda>response.
            if \<not> ok response then Rejected (Error ''Failed to fetch auth status'')
            else then_promise (response_json response) (\<lambda>j.
              then_promise (of_result (get_prop j ''authenticated'')) (\<lambda>a.
                then_promise (of_result (get_prop j ''user'')) (\<lambda>u.
                  Resolved \<lparr>authenticated = a, user = js_or u JNull\<rparr>))))\<rparr>)"

subsection \<open>formatCurrency\<close>

definition formatCurrency :: "platform \<Rightarrow> jsnum \<Rightarrow> string" where
  "formatCurrency pf amount = intl_format pf amount"

section \<open>The category chart\<close>

text \<open>
  \<open>CategoryData\<close> and \<open>MonthlyData\<close>, their fields prefixed because field names are
  global: \<open>category\<close>, \<open>total\<close>, \<open>count\<close> and \<open>month\<close>, \<open>total\<close>, \<open>count\<close>.
\<close>

record CategoryData =
  c_category :: string
  c_total :: jsnum
  c_count :: jsnum

record MonthlyData =
  m_month :: string
  m_total :: jsnum
  m_count :: jsnum

definition COLORS :: "string list" where
  "COLORS = [''#22c55e'', ''#3b82f6'', ''#f97316'', ''#ef4444'',
             ''#14b8a6'', ''#eab308'', ''#8b5cf6'', ''#ec4899'']"

text \<open>A donut segment, and an entry of the legend (\<open>categories\<close> in the component).\<close>

record segment =
  pct :: jsnum
  offset :: jsnum
  color :: string
  category_of :: string
  amount_of :: jsnum

record legend_entry =
  name :: string
  amount :: string
  rawAmount :: jsnum
  percentage :: string
  entry_color :: string
  entry_count :: jsnum

text \<open>
  The three values the component \<open>TopCategoryChart\<close> computes from its \<open>data\<close>:
  \<open>total\<close>, \<open>segments\<close> and \<open>categories\<close>. First \<open>data.reduce((sum, c) => sum + c.total, 0)\<close>.
\<close>

definition TopCategoryChart_total :: "CategoryData list \<Rightarrow> jsnum" where
  "TopCategoryChart_total data = foldl (\<lambda>sum c. js_add sum (c_total c)) (js_nat 0) data"

text \<open>
  The callback of the first \<open>map\<close>, run over the list from index \<open>i\<close> on with the
  variable \<open>cumulative\<close> it updates.
\<close>

fun build_segments :: "jsnum \<Rightarrow> jsnum \<Rightarrow> nat \<Rightarrow> CategoryData list \<Rightarrow> segment list" where
  "build_segments total' cumulative i [] = []"
| "build_segments total' cumulative i (c # cs) =
     (let pct = (if js_gt total' (js_nat 0)
                 then js_mul (js_div (c_total c) total') (js_nat 100)
                 else js_nat 0);
          offset = cumulative;
          cumulative = js_add cumulative pct
      in \<lparr>pct = pct, offset = offset, color = COLORS ! (i mod length COLORS),
          category_of = c_category c, amount_of = c_total c\<rparr>
         # build_segments total' cumulative (i + 1) cs)"

definition TopCategoryChart_segments :: "CategoryData list \<Rightarrow> segment list" where
  "TopCategoryChart_segments data = build_segments (TopCategoryChart_total data) (js_nat 0) 0 (take 8 data)"

definition TopCategoryChart_categories :: "platform \<Rightarrow> CategoryData list \<Rightarrow> legend_entry list" where
  "TopCategoryChart_categories pf data =
     (let total' = TopCategoryChart_total data
      in map (\<lambda>(i, c).
           \<lparr>name = c_category c,
            amount = formatCurrency pf (c_total c),
            rawAmount = c_total c,
            percentage = (if js_gt total' (js_nat 0)
                          then toFixed1 pf (js_mul (js_div (c_total c) total') (js_nat 100))
                          else ''0''),
            entry_color = COLORS ! (i mod length COLORS),
            entry_count = c_count c\<rparr>)
         (enumerate 0 (take 8 data)))"

section \<open>The dashboard page\<close>

text \<open>
  \<open>filteredMonthly\<close> and \<open>avgMonthly\<close> of the page \<open>Index\<close>, from the snapshot it holds
  (\<open>None\<close> before the first one arrives) and the selected year. Of the snapshot, the
  fields read here; \<open>monthly\<close> is \<open>None\<close> when the snapshot has no such field, which the
  page tests for.
\<close>

record DashboardData =
  categories :: "CategoryData list"
  monthly :: "MonthlyData list option"

definition startsWith :: "string \<Rightarrow> string \<Rightarrow> bool" where
  "startsWith s p = (take (length p) s = p)"

definition filteredMonthly :: "DashboardData option \<Rightarrow> string \<Rightarrow> MonthlyData list" where
  "filteredMonthly data selectedYear =
     (case opt_chain data monthly of
        None \<Rightarrow> []
      | Some ms \<Rightarrow>
          if selectedYear = [] then ms
          else filter (\<lambda>m. startsWith (m_month m) selectedYear) ms)"

definition avgMonthly :: "DashboardData option \<Rightarrow> string \<Rightarrow> jsnum" where
  "avgMonthly data selectedYear =
     (let fm = filteredMonthly data selectedYear
      in if length fm \<noteq> 0
         then js_div (foldl (\<lambda>sum m. js_add sum (m_total m)) (js_nat 0) fm)
                (js_nat (length fm))
         else js_nat 0)"

section \<open>Notions the properties are stated with\<close>

text \<open>The unwrap step applied to its own result.\<close>

definition unwrap_twice :: "json \<Rightarrow> js_error + json" where
  "unwrap_twice j = (case unwrap_dashboard j of Inl e \<Rightarrow> Inl e | Inr j' \<Rightarrow> unwrap_dashboard j')"

text \<open>The promise of \<open>fetch\<close> on this network settles within \<open>d\<close> milliseconds.\<close>

fun settles_within :: "network \<Rightarrow> nat \<Rightarrow> bool" where
  "settles_within Silent d = False"
| "settles_within (Unreachable t) d = (t \<le> d)"
| "settles_within (Responds t r) d = (t \<le> d)"

text \<open>
  The query parameters a URL carries, as the \<open>application/x-www-form-urlencoded\<close> parser
  of the URL standard reads them from the part after the first \<open>?\<close>: the query is split
  at every \<open>&\<close>, empty pieces are skipped, a piece is split at its first \<open>=\<close> into name
  and value, and in both a \<open>+\<close> is a space and \<open>%\<close> with two hexadecimal digits is the
  byte they denote.
\<close>

fun split_at :: "char \<Rightarrow> string \<Rightarrow> string list" where
  "split_at c [] = [[]]"
| "split_at c (x # xs) =
     (if x = c then [] # split_at c xs
      else (case split_at c xs of [] \<Rightarrow> [[x]] | w # ws \<Rightarrow> (x # w) # ws))"

definition hex_value :: "char \<Rightarrow> nat option" where
  "hex_value c =
     (let n = (of_char c :: nat)
      in if 48 \<le> n \<and> n \<le> 57 then Some (n - 48)
         else if 65 \<le> n \<and> n \<le> 70 then Some (n - 55)
         else if 97 \<le> n \<and> n \<le> 102 then Some (n - 87)
         else None)"

fun form_decode :: "string \<Rightarrow> string" where
  "form_decode [] = []"
| "form_decode [c] = (if c = CHR ''+'' then '' '' else [c])"
| "form_decode [c, a] = (if c = CHR ''+'' then CHR '' '' # form_decode [a] else c # form_decode [a])"
| "form_decode (c # a # b # cs) =
     (if c = CHR ''+'' then CHR '' '' # form_decode (a # b # cs)
      else if c = CHR ''%'' then
        (case (hex_value a, hex_value b) of
           (Some h, Some l) \<Rightarrow> char_of (16 * h + l) # form_decode cs
         | _ \<Rightarrow> c # form_decode (a # b # cs))
      else c # form_decode (a # b # cs))"

definition url_path :: "string \<Rightarrow> string" where
  "url_path u = takeWhile (\<lambda>c. c \<noteq> CHR ''?'') u"

definition url_query :: "string \<Rightarrow> string" where
  "url_query u = drop 1 (dropWhile (\<lambda>c. c \<noteq> CHR ''?'') u)"

definition parse_pair :: "string \<Rightarrow> string \<times> string" where
  "parse_pair s =
     (form_decode (takeWhile (\<lambda>c. c \<noteq> CHR ''='') s),
      form_decode (drop 1 (dropWhile (\<lambda>c. c \<noteq> CHR ''='') s)))"

definition query_params :: "string \<Rightarrow> (string \<times> string) list" where
  "query_params u = map parse_pair (filter (\<lambda>piece. piece \<noteq> []) (split_at CHR ''&'' (url_query u)))"

text \<open>The text of one pair in a serialized query.\<close>

definition pair_text :: "string \<times> string \<Rightarrow> string" where
  "pair_text p = form_encode (fst p) @ CHR ''='' # form_encode (snd p)"

text \<open>An object with the field \<open>k\<close> removed.\<close>

definition without :: "string \<Rightarrow> (string \<times> json) list \<Rightarrow> (string \<times> json) list" where
  "without k fs = filter (\<lambda>p. fst p \<noteq> k) fs"

text \<open>The filter of that name, when it is given and not empty.\<close>

definition given_filter :: "string \<Rightarrow> string option \<Rightarrow> (string \<times> string) list" where
  "given_filter key x = (case x of None \<Rightarrow> [] | Some v \<Rightarrow> if v = [] then [] else [(key, v)])"

section \<open>The query serializer read back by the query parser\<close>

lemma below_16_cases: "n < 16 \<Longrightarrow> n \<in> {0,1,2,3,4,5,6,7,8,9,10,11,12,13,14,15::nat}"
  by (simp; arith)

lemma hex_value_hex_digit: "n < 16 \<Longrightarrow> hex_value (hex_digit n) = Some n"
  by (drule below_16_cases) (auto simp: hex_value_def hex_digit_def)

lemma hex_digit_plain: "n < 16 \<Longrightarrow> hex_digit n \<notin> {CHR ''&'', CHR ''='', CHR ''?''}"
  by (drule below_16_cases) (auto simp: hex_digit_def)

lemma of_char_nibbles: "(of_char c :: nat) div 16 < 16" "(of_char c :: nat) mod 16 < 16"
proof -
  have "(of_char c :: nat) < 16 * 16" by simp
  then show "(of_char c :: nat) div 16 < 16" by (rule less_mult_imp_div_less)
  show "(of_char c :: nat) mod 16 < 16" by simp
qed

lemma form_safe_plain: "form_safe c \<Longrightarrow> c \<notin> {CHR ''+'', CHR ''%'', CHR ''&'', CHR ''='', CHR ''?''}"
  by (auto simp: form_safe_def)

lemma form_decode_plain: "c \<noteq> CHR ''+'' \<Longrightarrow> c \<noteq> CHR ''%'' \<Longrightarrow> form_decode (c # rest) = c # form_decode rest"
  by (cases rest rule: form_decode.cases) simp_all

lemma form_decode_plus: "form_decode (CHR ''+'' # rest) = CHR '' '' # form_decode rest"
  by (cases rest rule: form_decode.cases) simp_all

lemma form_decode_percent:
  "hex_value a = Some h \<Longrightarrow> hex_value b = Some l \<Longrightarrow>
   form_decode (CHR ''%'' # a # b # rest) = char_of (16 * h + l) # form_decode rest"
  by simp


lemma form_decode_encode_byte: "form_decode (form_encode_byte c @ rest) = c # form_decode rest"
proof (cases "c = CHR '' ''")
  case True
  then show ?thesis by (simp add: form_encode_byte_def form_decode_plus)
next
  case notsp: False
  show ?thesis
  proof (cases "form_safe c")
    case True
    then have "c \<noteq> CHR ''+''" "c \<noteq> CHR ''%''" using form_safe_plain[of c] by auto
    with True notsp show ?thesis
      by (simp add: form_encode_byte_def form_decode_plain)
  next
    case False
    have "form_decode (CHR ''%'' # hex_digit (of_char c div 16) # hex_digit (of_char c mod 16) # rest)
            = char_of (16 * (of_char c div 16 :: nat) + of_char c mod 16) # form_decode rest"
      by (rule form_decode_percent) (rule hex_value_hex_digit, rule of_char_nibbles)+
    with False notsp show ?thesis
      by (simp add: form_encode_byte_def)
  qed
qed

lemma form_decode_encode_append: "form_decode (form_encode s @ rest) = s @ form_decode rest"
  by (induction s) (simp_all add: form_encode_def form_decode_encode_byte)

lemma form_decode_encode: "form_decode (form_encode s) = s"
  using form_decode_encode_append[of s "[]"] by simp


lemma form_encode_byte_plain:
  "x \<in> set (form_encode_byte c) \<Longrightarrow> x \<notin> {CHR ''&'', CHR ''='', CHR ''?''}"
proof (cases "c = CHR '' ''")
  case True
  assume "x \<in> set (form_encode_byte c)"
  with True show ?thesis by (simp add: form_encode_byte_def)
next
  case notsp: False
  assume x: "x \<in> set (form_encode_byte c)"
  show ?thesis
  proof (cases "form_safe c")
    case True
    with notsp x have "x = c" by (simp add: form_encode_byte_def)
    with True show ?thesis using form_safe_plain[of c] by simp
  next
    case False
    with notsp x have "x = CHR ''%'' \<or> x = hex_digit (of_char c div 16) \<or> x = hex_digit (of_char c mod 16)"
      by (simp add: form_encode_byte_def)
    then show ?thesis
      using hex_digit_plain[OF of_char_nibbles(1), of c] hex_digit_plain[OF of_char_nibbles(2), of c] by auto
  qed
qed

lemma form_encode_plain:
  "x \<in> set (form_encode s) \<Longrightarrow> x \<notin> {CHR ''&'', CHR ''='', CHR ''?''}"
  unfolding form_encode_def using form_encode_byte_plain by fastforce

lemma split_at_app:
  "c \<notin> set a \<Longrightarrow> split_at c (a @ c # rest) = a # split_at c rest"
  by (induction a) (auto split: list.splits)

lemma split_at_none: "c \<notin> set a \<Longrightarrow> split_at c a = [a]"
  by (induction a) (auto split: list.splits)


lemma pair_text_plain: "CHR ''&'' \<notin> set (pair_text p)" "CHR ''?'' \<notin> set (pair_text p)"
  using form_encode_plain[of "CHR ''&''"] form_encode_plain[of "CHR ''?''"] by (auto simp: pair_text_def)

lemma parse_pair_text: "parse_pair (pair_text p) = p"
proof -
  have "CHR ''='' \<notin> set (form_encode (fst p))" using form_encode_plain[of "CHR ''=''"] by blast
  then have "takeWhile (\<lambda>c. c \<noteq> CHR ''='') (pair_text p) = form_encode (fst p)"
    and "dropWhile (\<lambda>c. c \<noteq> CHR ''='') (pair_text p) = CHR ''='' # form_encode (snd p)"
    by (simp_all add: pair_text_def takeWhile_append dropWhile_append)
  then show ?thesis by (simp add: parse_pair_def form_decode_encode)
qed

lemma form_serialize_Cons:
  "form_serialize (p # ps) = (if ps = [] then pair_text p else pair_text p @ CHR ''&'' # form_serialize ps)"
  by (cases p; cases ps) (simp_all add: pair_text_def)

lemma parse_form_serialize:
  "map parse_pair (filter (\<lambda>piece. piece \<noteq> []) (split_at CHR ''&'' (form_serialize ps))) = ps"
proof (induction ps)
  case Nil
  then show ?case by simp
next
  case (Cons p ps)
  have ne: "pair_text p \<noteq> []" by (simp add: pair_text_def)
  show ?case
  proof (cases "ps = []")
    case True
    then show ?thesis
      by (simp add: form_serialize_Cons split_at_none[OF pair_text_plain(1)] ne parse_pair_text)
  next
    case False
    then show ?thesis using Cons.IH
      by (simp add: form_serialize_Cons split_at_app[OF pair_text_plain(1)] ne parse_pair_text)
  qed
qed

lemma form_serialize_no_question: "CHR ''?'' \<notin> set (form_serialize ps)"
proof (induction ps)
  case Nil show ?case by simp
next
  case (Cons p ps)
  then show ?case using pair_text_plain(2)[of p] by (simp add: form_serialize_Cons)
qed

lemma form_serialize_empty_iff: "form_serialize ps = [] \<longleftrightarrow> ps = []"
  by (cases ps) (simp_all add: form_serialize_Cons pair_text_def)

lemma query_params_with: 
  assumes "CHR ''?'' \<notin> set base"
  shows "query_params (base @ CHR ''?'' # form_serialize ps) = ps"
proof -
  from assms have "url_query (base @ CHR ''?'' # form_serialize ps) = form_serialize ps"
    by (simp add: url_query_def dropWhile_append)
  then show ?thesis by (simp add: query_params_def parse_form_serialize)
qed

lemma query_params_without: 
  assumes "CHR ''?'' \<notin> set base"
  shows "query_params base = []"
proof -
  from assms have none: "dropWhile (\<lambda>c. c \<noteq> CHR ''?'') base = []" by auto
  show ?thesis unfolding query_params_def url_query_def none by simp
qed

lemma url_path_base:
  assumes "CHR ''?'' \<notin> set base"
  shows "url_path (base @ CHR ''?'' # q) = base" "url_path base = base"
  using assms by (auto simp: url_path_def takeWhile_append)


lemma expenses_search_params_given:
  "expenses_search_params (Some \<lparr>year = y, month = m, category = c\<rparr>)
     = given_filter ''year'' y @ given_filter ''month'' m @ given_filter ''category'' c"
  "expenses_search_params None = []"
  by (simp_all add: expenses_search_params_def set_if_truthy_def opt_chain_def given_filter_def
      split: option.split)

lemma expenses_url_parts:
  "url_path (expenses_url params) = ''/api/expenses''"
  "query_params (expenses_url params) = expenses_search_params params"
proof -
  have base: "CHR ''?'' \<notin> set ''/api/expenses''" by simp
  show "url_path (expenses_url params) = ''/api/expenses''"
    using url_path_base[OF base]
    by (simp add: expenses_url_def API_BASE_def Let_def)
  show "query_params (expenses_url params) = expenses_search_params params"
    using query_params_with[OF base] query_params_without[OF base]
    by (simp add: expenses_url_def API_BASE_def Let_def form_serialize_empty_iff)
qed

lemma issued_fetchExpenses:
  "url (issued (fetchExpenses params server)) = expenses_url params"
  by (simp add: fetchExpenses_def Let_def split: prod.split)

section \<open>Properties of the API service\<close>

lemma map_of_without: "map_of (without k fs) k = None"
  by (induction fs) (auto simp: without_def)

text \<open>
  C1. When the dashboard answer is an object that wraps a snapshot under the field
  \<open>dashboard\<close>, \<open>fetchDashboard\<close> resolves to the inner object. When the answer is the bare
  snapshot, an object with no field \<open>dashboard\<close>, \<open>fetchDashboard\<close> resolves to the body
  unchanged, and on both shapes the unwrap step applied twice gives what it gives applied
  once.
\<close>

theorem fetchDashboard_unwrap_idempotent:
  assumes "t \<le> 5000" and "200 \<le> s" and "s \<le> 299"
    and "map_of ws ''dashboard'' = Some (JObj snap)"
  shows "outcome (fetchDashboard (always (Responds t \<lparr>status = s, parsed = Arrived (Some (JObj ws))\<rparr>)))
           = Resolved (JObj snap)
       \<and> (map_of snap ''dashboard'' = None \<longrightarrow>
            outcome (fetchDashboard (always (Responds t \<lparr>status = s, parsed = Arrived (Some (JObj snap))\<rparr>)))
              = Resolved (JObj snap)
          \<and> unwrap_twice (JObj ws) = unwrap_dashboard (JObj ws)
          \<and> unwrap_twice (JObj snap) = unwrap_dashboard (JObj snap))"
  using assms
  by (simp add: fetchDashboard_def fetch_def always_def ok_def response_json_def unwrap_dashboard_def
      unwrap_twice_def js_or_def)

theorem fetchDashboard_unwrap_idempotent_witness:
  "(120::nat) \<le> 5000 \<and> (200::nat) \<le> 200 \<and> (200::nat) \<le> 299
   \<and> map_of [(''dashboard'', JObj [(''expense_count'', JNum (Fin False 3))])] ''dashboard''
       = Some (JObj [(''expense_count'', JNum (Fin False 3))])
   \<and> map_of [(''expense_count'', JNum (Fin False 3))] ''dashboard'' = None
   \<and> outcome (fetchDashboard (always (Responds 120
         \<lparr>status = 200,
          parsed = Arrived (Some (JObj [(''dashboard'', JObj [(''expense_count'', JNum (Fin False 3))])]))\<rparr>)))
       = Resolved (JObj [(''expense_count'', JNum (Fin False 3))])
   \<and> outcome (fetchDashboard (always (Responds 120
         \<lparr>status = 200, parsed = Arrived (Some (JObj [(''expense_count'', JNum (Fin False 3))]))\<rparr>)))
       = Resolved (JObj [(''expense_count'', JNum (Fin False 3))])
   \<and> unwrap_twice (JObj [(''dashboard'', JObj [(''expense_count'', JNum (Fin False 3))])])
       = unwrap_dashboard (JObj [(''dashboard'', JObj [(''expense_count'', JNum (Fin False 3))])])
   \<and> unwrap_twice (JObj [(''expense_count'', JNum (Fin False 3))])
       = unwrap_dashboard (JObj [(''expense_count'', JNum (Fin False 3))])"
  using fetchDashboard_unwrap_idempotent
    [of 120 200 "[(''dashboard'', JObj [(''expense_count'', JNum (Fin False 3))])]"
        "[(''expense_count'', JNum (Fin False 3))]"]
  by simp

text \<open>
  C2. Whatever the three filters are, each a non-empty string, an empty string or
  absent, the URL that \<open>fetchExpenses\<close> requests has the path \<open>/api/expenses\<close> and
  carries as query parameters exactly the filters that are given and not empty, under
  their names, with their values and in the order year, month, category; with no
  argument at all it carries none.
\<close>

theorem fetchExpenses_query_exact:
  "url_path (url (issued (fetchExpenses (Some \<lparr>year = y, month = m, category = c\<rparr>) server)))
     = ''/api/expenses''
   \<and> query_params (url (issued (fetchExpenses (Some \<lparr>year = y, month = m, category = c\<rparr>) server)))
     = given_filter ''year'' y @ given_filter ''month'' m @ given_filter ''category'' c
   \<and> query_params (url (issued (fetchExpenses None server))) = []"
  by (simp add: issued_fetchExpenses expenses_url_parts expenses_search_params_given)

text \<open>
  C3. The failure on a non-success status does not carry the status: the code throws a
  plain \<open>Error\<close> whose message is fixed, and the answers 404 and 500 make
  \<open>fetchDashboard\<close> fail with the same error.
\<close>

theorem request_failed_status_counterexample:
  "outcome (fetchDashboard (always (Responds 10 \<lparr>status = 404, parsed = Arrived None\<rparr>)))
     = Rejected (Error ''Failed to fetch dashboard data'')
   \<and> outcome (fetchDashboard (always (Responds 10 \<lparr>status = 500, parsed = Arrived None\<rparr>)))
     = Rejected (Error ''Failed to fetch dashboard data'')"
  by (simp add: fetchDashboard_def fetch_def always_def ok_def)

text \<open>
  C3, amended. On an answer of non-success status each of the four operations fails with
  a plain \<open>Error\<close> whose message names the operation and is the same for every status.
  That failure differs from the failure of the same operation on a timeout (the
  dashboard fetch only), on a body that is not JSON and on a network failure.
\<close>

theorem non_success_fixed_error:
  assumes "\<not> ok r" and "t \<le> 5000"
  shows "outcome (fetchDashboard (always (Responds t r)))
           = Rejected (Error ''Failed to fetch dashboard data'')
       \<and> outcome (fetchExpenses params (always (Responds t r)))
           = Rejected (Error ''Failed to fetch expenses'')
       \<and> outcome (syncExpenses days (always (Responds t r)))
           = Rejected (Error ''Failed to sync expenses'')
       \<and> outcome (fetchAuthStatus (always (Responds t r)))
           = Rejected (Error ''Failed to fetch auth status'')
       \<and> outcome (fetchDashboard (always (Responds t r)))
           \<noteq> outcome (fetchDashboard (always Silent))
       \<and> outcome (fetchDashboard (always (Responds t r)))
           \<noteq> outcome (fetchDashboard (always (Responds t \<lparr>status = 200, parsed = Arrived None\<rparr>)))
       \<and> outcome (fetchDashboard (always (Responds t r)))
           \<noteq> outcome (fetchDashboard (always (Unreachable t)))
       \<and> outcome (fetchExpenses params (always (Responds t r)))
           \<noteq> outcome (fetchExpenses params (always (Responds t \<lparr>status = 200, parsed = Arrived None\<rparr>)))
       \<and> outcome (fetchExpenses params (always (Responds t r)))
           \<noteq> outcome (fetchExpenses params (always (Unreachable t)))
       \<and> outcome (syncExpenses days (always (Responds t r)))
           \<noteq> outcome (syncExpenses days (always (Responds t \<lparr>status = 200, parsed = Arrived None\<rparr>)))
       \<and> outcome (syncExpenses days (always (Responds t r)))
           \<noteq> outcome (syncExpenses days (always (Unreachable t)))
       \<and> outcome (fetchAuthStatus (always (Responds t r)))
           \<noteq> outcome (fetchAuthStatus (always (Responds t \<lparr>status = 200, parsed = Arrived None\<rparr>)))
       \<and> outcome (fetchAuthStatus (always (Responds t r)))
           \<noteq> outcome (fetchAuthStatus (always (Unreachable t)))"
  using assms
  by (simp add: fetchDashboard_def fetchExpenses_def syncExpenses_def fetchAuthStatus_def
      fetch_def always_def ok_def response_json_def)

theorem non_success_fixed_error_witness:
  "\<not> ok \<lparr>status = 503, parsed = Arrived (Some (JObj [(''error'', JStr ''down'')]))\<rparr>
   \<and> (25::nat) \<le> 5000
   \<and> outcome (fetchDashboard (always (Responds 25
        \<lparr>status = 503, parsed = Arrived (Some (JObj [(''error'', JStr ''down'')]))\<rparr>)))
       = Rejected (Error ''Failed to fetch dashboard data'')
   \<and> outcome (fetchExpenses None (always (Responds 25
        \<lparr>status = 503, parsed = Arrived (Some (JObj [(''error'', JStr ''down'')]))\<rparr>)))
       = Rejected (Error ''Failed to fetch expenses'')
   \<and> outcome (syncExpenses None (always (Responds 25
        \<lparr>status = 503, parsed = Arrived (Some (JObj [(''error'', JStr ''down'')]))\<rparr>)))
       = Rejected (Error ''Failed to sync expenses'')
   \<and> outcome (fetchAuthStatus (always (Responds 25
        \<lparr>status = 503, parsed = Arrived (Some (JObj [(''error'', JStr ''down'')]))\<rparr>)))
       = Rejected (Error ''Failed to fetch auth status'')"
  using non_success_fixed_error
    [of "\<lparr>status = 503, parsed = Arrived (Some (JObj [(''error'', JStr ''down'')]))\<rparr>" 25 None None]
  by (simp add: ok_def)

text \<open>
  C4. A dashboard fetch whose answer has not come within 5 seconds is not always
  aborted: when the headers arrive in time the timer is cleared before the body is read,
  and on a body that then never arrives \<open>fetchDashboard\<close> stays pending, unaborted.
\<close>

theorem fetchDashboard_stalled_body_counterexample:
  "outcome (fetchDashboard (always (Responds 100 \<lparr>status = 200, parsed = Stalled\<rparr>))) = Pending
   \<and> \<not> aborted (fetchDashboard (always (Responds 100 \<lparr>status = 200, parsed = Stalled\<rparr>)))"
  by (simp add: fetchDashboard_def fetch_def always_def ok_def response_json_def)

text \<open>
  C4, amended. When the promise of the dashboard's \<open>fetch\<close> has not settled within 5000
  milliseconds (no headers of an answer and no network failure by then), the timer aborts
  the request and \<open>fetchDashboard\<close> rejects with the abort error; it neither resolves nor
  stays pending. When that promise settles within 5000 milliseconds the timer is cleared
  and the request is never aborted, whatever becomes of the body.
\<close>

theorem fetchDashboard_timeout_aborts:
  "(\<not> settles_within (server (issued (fetchDashboard server))) 5000 \<longrightarrow>
      aborted (fetchDashboard server)
      \<and> outcome (fetchDashboard server) = Rejected AbortError)
   \<and> (settles_within (server (issued (fetchDashboard server))) 5000 \<longrightarrow>
      \<not> aborted (fetchDashboard server))"
proof -
  let ?req = "\<lparr>verb = GET, url = ''/api/dashboard'', headers = [], payload = None,
               signal = Some 5000\<rparr>"
  have req: "issued (fetchDashboard server) = ?req"
    by (simp add: fetchDashboard_def API_BASE_def Let_def split: prod.split)
  have late: "await_fetch (server ?req) (Some 5000) = (True, Rejected AbortError)"
    if "\<not> settles_within (server ?req) 5000"
    using that by (cases "server ?req") simp_all
  have timely: "fst (await_fetch (server ?req) (Some 5000)) = False"
    if "settles_within (server ?req) 5000"
    using that by (cases "server ?req") simp_all
  have aborted: "aborted (fetchDashboard server) = fst (await_fetch (server ?req) (Some 5000))"
    by (simp add: fetchDashboard_def fetch_def API_BASE_def Let_def split: prod.split)
  show ?thesis
  proof (intro conjI impI)
    assume "\<not> settles_within (server (issued (fetchDashboard server))) 5000"
    then have "await_fetch (server ?req) (Some 5000) = (True, Rejected AbortError)"
      using late by (simp add: req)
    then show "aborted (fetchDashboard server)"
      and "outcome (fetchDashboard server) = Rejected AbortError"
      by (simp_all add: fetchDashboard_def fetch_def API_BASE_def)
  next
    assume "settles_within (server (issued (fetchDashboard server))) 5000"
    then show "\<not> aborted (fetchDashboard server)"
      using timely by (simp add: req aborted)
  qed
qed

theorem fetchDashboard_timeout_aborts_witness:
  "\<not> settles_within (Responds 5001 \<lparr>status = 200, parsed = Arrived (Some (JObj []))\<rparr>) 5000
   \<and> aborted (fetchDashboard (always (Responds 5001 \<lparr>status = 200, parsed = Arrived (Some (JObj []))\<rparr>)))
   \<and> outcome (fetchDashboard (always (Responds 5001 \<lparr>status = 200, parsed = Arrived (Some (JObj []))\<rparr>)))
       = Rejected AbortError
   \<and> \<not> settles_within Silent 5000
   \<and> aborted (fetchDashboard (always Silent))
   \<and> outcome (fetchDashboard (always Silent)) = Rejected AbortError
   \<and> settles_within (Responds 4999 \<lparr>status = 200, parsed = Broken\<rparr>) 5000
   \<and> \<not> aborted (fetchDashboard (always (Responds 4999 \<lparr>status = 200, parsed = Broken\<rparr>)))"
  using
    fetchDashboard_timeout_aborts
      [of "always (Responds 5001 \<lparr>status = 200, parsed = Arrived (Some (JObj []))\<rparr>)"]
    fetchDashboard_timeout_aborts [of "always Silent"]
    fetchDashboard_timeout_aborts [of "always (Responds 4999 \<lparr>status = 200, parsed = Broken\<rparr>)"]
  by (simp add: always_def)

text \<open>
  C5. A successful expenses answer whose body has no field \<open>expenses\<close>, so that reading
  the field gives \<open>undefined\<close>, resolves to the empty list. (The body \<open>null\<close> is not such
  a body: reading a field of it throws.)
\<close>

theorem fetchExpenses_missing_field_empty:
  assumes "200 \<le> s" and "s \<le> 299" and "get_prop body ''expenses'' = Inr JUndefined"
  shows "outcome (fetchExpenses params (always (Responds t \<lparr>status = s, parsed = Arrived (Some body)\<rparr>)))
           = Resolved (JArr [])"
  using assms by (simp add: fetchExpenses_def fetch_def always_def ok_def response_json_def js_or_def)

theorem fetchExpenses_missing_field_empty_witness:
  "(200::nat) \<le> 200 \<and> (200::nat) \<le> 299
   \<and> get_prop (JObj [(''count'', JNum (Fin False 0)), (''success'', JBool True)]) ''expenses''
       = Inr JUndefined
   \<and> outcome (fetchExpenses None (always (Responds 40
        \<lparr>status = 200,
         parsed = Arrived (Some (JObj [(''count'', JNum (Fin False 0)), (''success'', JBool True)]))\<rparr>)))
       = Resolved (JArr [])"
  using fetchExpenses_missing_field_empty
    [of 200 "JObj [(''count'', JNum (Fin False 0)), (''success'', JBool True)]" None 40]
  by simp



text \<open>
  C7. A successful auth-status answer that is an object resolves, never rejects: to the
  value of \<open>authenticated\<close> as it is, together with the user when the answer has one (a
  truthy value, as every object is) and with \<open>null\<close> when the field \<open>user\<close> is absent or
  holds \<open>null\<close> or another falsy value.
\<close>

theorem fetchAuthStatus_user_or_null:
  assumes "200 \<le> s" and "s \<le> 299"
  shows "outcome (fetchAuthStatus (always (Responds t \<lparr>status = s, parsed = Arrived (Some (JObj fs))\<rparr>)))
           = Resolved
               \<lparr>authenticated =
                  (case map_of fs ''authenticated'' of None \<Rightarrow> JUndefined | Some a \<Rightarrow> a),
                user =
                  (case map_of fs ''user'' of None \<Rightarrow> JNull
                   | Some u \<Rightarrow> if truthy u then u else JNull)\<rparr>"
  using assms
  by (simp add: fetchAuthStatus_def fetch_def always_def ok_def response_json_def js_or_def
      split: option.split)

theorem fetchAuthStatus_user_or_null_witness:
  "(200::nat) \<le> 200 \<and> (200::nat) \<le> 299
   \<and> outcome (fetchAuthStatus (always (Responds 15
        \<lparr>status = 200,
         parsed = Arrived (Some (JObj [(''authenticated'', JBool True),
                              (''user'', JObj [(''first_name'', JStr ''Asha'')])]))\<rparr>)))
       = Resolved \<lparr>authenticated = JBool True, user = JObj [(''first_name'', JStr ''Asha'')]\<rparr>
   \<and> outcome (fetchAuthStatus (always (Responds 15
        \<lparr>status = 200, parsed = Arrived (Some (JObj [(''authenticated'', JBool False)]))\<rparr>)))
       = Resolved \<lparr>authenticated = JBool False, user = JNull\<rparr>
   \<and> outcome (fetchAuthStatus (always (Responds 15
        \<lparr>status = 200,
         parsed = Arrived (Some (JObj [(''authenticated'', JBool False), (''user'', JNull)]))\<rparr>)))
       = Resolved \<lparr>authenticated = JBool False, user = JNull\<rparr>"
  using
    fetchAuthStatus_user_or_null
      [of 200 15 "[(''authenticated'', JBool True),
                   (''user'', JObj [(''first_name'', JStr ''Asha'')])]"]
    fetchAuthStatus_user_or_null [of 200 15 "[(''authenticated'', JBool False)]"]
    fetchAuthStatus_user_or_null
      [of 200 15 "[(''authenticated'', JBool False), (''user'', JNull)]"]
  by simp

text \<open>
  C10. The fallback of both unwrap steps tests falsiness, not absence. When the field
  \<open>expenses\<close> is present and holds a falsy value, \<open>fetchExpenses\<close> resolves to the empty
  list, as it does on the same body without the field. When the field \<open>dashboard\<close> is
  present and holds a falsy value, \<open>fetchDashboard\<close> resolves to the whole body, as it
  does on the same body without the field. \<open>null\<close>, \<open>false\<close>, 0 and the empty string are
  falsy.
\<close>

theorem envelope_fallback_on_falsy:
  assumes "200 \<le> s" and "s \<le> 299" and "t \<le> 5000"
    and "map_of es ''expenses'' = Some v" and "\<not> truthy v"
    and "map_of ds ''dashboard'' = Some w" and "\<not> truthy w"
  shows "outcome (fetchExpenses params (always (Responds t \<lparr>status = s, parsed = Arrived (Some (JObj es))\<rparr>)))
           = Resolved (JArr [])
       \<and> outcome (fetchExpenses params
             (always (Responds t \<lparr>status = s, parsed = Arrived (Some (JObj (without ''expenses'' es)))\<rparr>)))
           = Resolved (JArr [])
       \<and> outcome (fetchDashboard (always (Responds t \<lparr>status = s, parsed = Arrived (Some (JObj ds))\<rparr>)))
           = Resolved (JObj ds)
       \<and> outcome (fetchDashboard
             (always (Responds t \<lparr>status = s, parsed = Arrived (Some (JObj (without ''dashboard'' ds)))\<rparr>)))
           = Resolved (JObj (without ''dashboard'' ds))
       \<and> \<not> truthy JNull \<and> \<not> truthy (JBool False) \<and> \<not> truthy (JNum (Fin False 0))
       \<and> \<not> truthy (JStr [])"
  using assms
  by (simp add: fetchExpenses_def fetchDashboard_def fetch_def always_def ok_def
      response_json_def js_or_def unwrap_dashboard_def map_of_without)

theorem envelope_fallback_on_falsy_witness:
  "(200::nat) \<le> 200 \<and> (200::nat) \<le> 299 \<and> (30::nat) \<le> 5000
   \<and> map_of [(''expenses'', JNum (Fin False 0)), (''count'', JNum (Fin False 0))] ''expenses''
       = Some (JNum (Fin False 0))
   \<and> \<not> truthy (JNum (Fin False 0))
   \<and> map_of [(''dashboard'', JNull), (''success'', JBool False)] ''dashboard'' = Some JNull
   \<and> \<not> truthy JNull
   \<and> outcome (fetchExpenses None (always (Responds 30
        \<lparr>status = 200,
         parsed = Arrived (Some (JObj [(''expenses'', JNum (Fin False 0)),
                              (''count'', JNum (Fin False 0))]))\<rparr>)))
       = Resolved (JArr [])
   \<and> outcome (fetchDashboard (always (Responds 30
        \<lparr>status = 200,
         parsed = Arrived (Some (JObj [(''dashboard'', JNull), (''success'', JBool False)]))\<rparr>)))
       = Resolved (JObj [(''dashboard'', JNull), (''success'', JBool False)])"
  using envelope_fallback_on_falsy
    [of 200 30 "[(''expenses'', JNum (Fin False 0)), (''count'', JNum (Fin False 0))]"
        "JNum (Fin False 0)" "[(''dashboard'', JNull), (''success'', JBool False)]" JNull None]
  by simp

section \<open>Properties of the chart and of the dashboard page\<close>

lemma floor_rat_numeral: "\<lfloor>numeral a / numeral b :: rat\<rfloor> = numeral a div numeral b"
  using floor_divide_of_int_eq [of "numeral a" "numeral b", where ?'a = rat] by simp

lemmas js_eval = js_nat_def value_of_def fl_def binade_def pow2_def round_half_even_def Let_def
  floor_rat_numeral

lemma sum_500_300_200:
  "js_add (js_add (js_add (js_nat 0) (js_nat 500)) (js_nat 300)) (js_nat 200) = js_nat 1000"
  by (simp add: js_eval)

lemma share_500: "js_mul (js_div (js_nat 500) (js_nat 1000)) (js_nat 100) = js_nat 50"
  by (simp add: js_eval)

lemma share_300: "js_mul (js_div (js_nat 300) (js_nat 1000)) (js_nat 100) = js_nat 30"
  by (simp add: js_eval)

lemma share_200: "js_mul (js_div (js_nat 200) (js_nat 1000)) (js_nat 100) = js_nat 20"
  by (simp add: js_eval)

lemma positive_1000: "js_gt (js_nat 1000) (js_nat 0)"
  by (simp add: js_eval)

lemma toFixed1_50: "toFixed1 pf (js_nat 50) = ''50.0''"
  by (simp add: toFixed1_def js_nat_def Let_def floor_rat_numeral digit_char_def)

lemma toFixed1_30: "toFixed1 pf (js_nat 30) = ''30.0''"
  by (simp add: toFixed1_def js_nat_def Let_def floor_rat_numeral digit_char_def)

lemma toFixed1_20: "toFixed1 pf (js_nat 20) = ''20.0''"
  by (simp add: toFixed1_def js_nat_def Let_def floor_rat_numeral digit_char_def)

lemma build_segments_guarded:
  "\<not> js_gt t (js_nat 0) \<Longrightarrow>
   list_all (\<lambda>sg. pct sg = js_nat 0) (build_segments t cumulative i cs)"
  by (induction cs arbitrary: cumulative i) (simp_all add: Let_def)

lemma TopCategoryChart_categories_guarded:
  "\<not> js_gt (TopCategoryChart_total data) (js_nat 0) \<Longrightarrow>
   list_all (\<lambda>e. percentage e = ''0'') (TopCategoryChart_categories pf data)"
  by (simp add: TopCategoryChart_categories_def Let_def list_all_iff split_beta)

lemma zero_not_positive: "\<not> js_gt (Fin s 0) (js_nat 0)"
  by (simp add: js_nat_def value_of_def)

text \<open>
  C8. For three categories of totals 500, 300 and 200, whatever their names and counts,
  the sum is 1000, the percentages of the donut segments are 50, 30 and 20, each the
  binary64 result of the total divided by the sum and multiplied by 100, and the legend
  shows them to one fraction digit as 50.0, 30.0 and 20.0.
\<close>

theorem chart_percentages_500_300_200:
  "TopCategoryChart_total
      [\<lparr>c_category = a, c_total = js_nat 500, c_count = k\<rparr>,
       \<lparr>c_category = b, c_total = js_nat 300, c_count = l\<rparr>,
       \<lparr>c_category = c, c_total = js_nat 200, c_count = n\<rparr>]
     = js_nat 1000
   \<and> map pct (TopCategoryChart_segments
      [\<lparr>c_category = a, c_total = js_nat 500, c_count = k\<rparr>,
       \<lparr>c_category = b, c_total = js_nat 300, c_count = l\<rparr>,
       \<lparr>c_category = c, c_total = js_nat 200, c_count = n\<rparr>])
     = [js_nat 50, js_nat 30, js_nat 20]
   \<and> map percentage (TopCategoryChart_categories pf
      [\<lparr>c_category = a, c_total = js_nat 500, c_count = k\<rparr>,
       \<lparr>c_category = b, c_total = js_nat 300, c_count = l\<rparr>,
       \<lparr>c_category = c, c_total = js_nat 200, c_count = n\<rparr>])
     = [''50.0'', ''30.0'', ''20.0'']"
  by (simp add: TopCategoryChart_segments_def TopCategoryChart_categories_def TopCategoryChart_total_def sum_500_300_200
      share_500 share_300 share_200 positive_1000 toFixed1_50 toFixed1_30 toFixed1_20 Let_def)

text \<open>
  C9. Both ratios are guarded. When the sum of the category totals is zero, every
  segment's percentage is the number 0 and every legend percentage is the text \<open>0\<close>,
  with no division. When the filtered monthly list is empty, the monthly average is 0.
\<close>

theorem zero_denominator_guarded:
  "(TopCategoryChart_total data = Fin s 0 \<longrightarrow>
      list_all (\<lambda>sg. pct sg = js_nat 0) (TopCategoryChart_segments data)
      \<and> list_all (\<lambda>e. percentage e = ''0'') (TopCategoryChart_categories pf data))
   \<and> (filteredMonthly snapshot selectedYear = [] \<longrightarrow>
        avgMonthly snapshot selectedYear = js_nat 0)"
  using zero_not_positive [of s]
  by (auto simp: TopCategoryChart_segments_def avgMonthly_def
      intro: build_segments_guarded TopCategoryChart_categories_guarded)

theorem zero_denominator_guarded_witness:
  "TopCategoryChart_total [\<lparr>c_category = ''Food'', c_total = js_nat 0, c_count = js_nat 2\<rparr>,
                \<lparr>c_category = ''Rent'', c_total = js_nat 0, c_count = js_nat 1\<rparr>] = Fin False 0
   \<and> list_all (\<lambda>sg. pct sg = js_nat 0)
        (TopCategoryChart_segments [\<lparr>c_category = ''Food'', c_total = js_nat 0, c_count = js_nat 2\<rparr>,
                         \<lparr>c_category = ''Rent'', c_total = js_nat 0, c_count = js_nat 1\<rparr>])
   \<and> list_all (\<lambda>e. percentage e = ''0'')
        (TopCategoryChart_categories \<lparr>number_toString = \<lambda>m. ''1e+21'', intl_format = \<lambda>x. ''0.00''\<rparr>
           [\<lparr>c_category = ''Food'', c_total = js_nat 0, c_count = js_nat 2\<rparr>,
            \<lparr>c_category = ''Rent'', c_total = js_nat 0, c_count = js_nat 1\<rparr>])
   \<and> filteredMonthly
         (Some \<lparr>categories = [],
                monthly = Some [\<lparr>m_month = ''2023-05'', m_total = js_nat 900,
                                 m_count = js_nat 4\<rparr>]\<rparr>)
         ''2024'' = []
   \<and> avgMonthly
         (Some \<lparr>categories = [],
                monthly = Some [\<lparr>m_month = ''2023-05'', m_total = js_nat 900,
                                 m_count = js_nat 4\<rparr>]\<rparr>)
         ''2024'' = js_nat 0"
  using zero_denominator_guarded
    [of "[\<lparr>c_category = ''Food'', c_total = js_nat 0, c_count = js_nat 2\<rparr>,
          \<lparr>c_category = ''Rent'', c_total = js_nat 0, c_count = js_nat 1\<rparr>]" False
        "\<lparr>number_toString = \<lambda>m. ''1e+21'', intl_format = \<lambda>x. ''0.00''\<rparr>"
        "Some \<lparr>categories = [],
               monthly = Some [\<lparr>m_month = ''2023-05'', m_total = js_nat 900,
                                m_count = js_nat 4\<rparr>]\<rparr>"
        "''2024''"]
  by (simp add: TopCategoryChart_total_def js_nat_def value_of_def filteredMonthly_def opt_chain_def
      startsWith_def)

section \<open>Where the properties stop\<close>

text \<open>
  A body that is \<open>null\<close> is no envelope: reading a field of it throws, and the
  operations that unwrap reject with a type error.
\<close>

lemma null_body_rejects:
  assumes "200 \<le> s" and "s \<le> 299" and "t \<le> 5000"
  shows "outcome (fetchDashboard (always (Responds t \<lparr>status = s, parsed = Arrived (Some JNull)\<rparr>)))
           = Rejected TypeError"
    and "outcome (fetchExpenses params (always (Responds t \<lparr>status = s, parsed = Arrived (Some JNull)\<rparr>)))
           = Rejected TypeError"
    and "outcome (fetchAuthStatus (always (Responds t \<lparr>status = s, parsed = Arrived (Some JNull)\<rparr>)))
           = Rejected TypeError"
  using assms
  by (simp_all add: fetchDashboard_def fetchExpenses_def fetchAuthStatus_def fetch_def
      always_def ok_def response_json_def unwrap_dashboard_def)

text \<open>A wrapper inside a wrapper is unwrapped once by each step.\<close>

lemma unwrap_nested_wrapper:
  "unwrap_dashboard (JObj [(''dashboard'', JObj [(''dashboard'', JObj [])])])
     = Inr (JObj [(''dashboard'', JObj [])])"
  "unwrap_twice (JObj [(''dashboard'', JObj [(''dashboard'', JObj [])])]) = Inr (JObj [])"
  by (simp_all add: unwrap_twice_def unwrap_dashboard_def js_or_def)

text \<open>Only the dashboard fetch has a timer: on a silent network the others stay pending.\<close>

lemma silent_network_pending:
  "outcome (fetchExpenses params (always Silent)) = Pending"
  "outcome (syncExpenses days (always Silent)) = Pending"
  "outcome (fetchAuthStatus (always Silent)) = Pending"
  by (simp_all add: fetchExpenses_def syncExpenses_def fetchAuthStatus_def fetch_def always_def)

text \<open>
  No operation bounds the reading of the body: a body that never arrives leaves the three
  other operations pending too, and a read that breaks rejects with a type error.
\<close>

lemma body_phase_unbounded:
  assumes "200 \<le> s" and "s \<le> 299"
  shows "outcome (fetchExpenses params (always (Responds t \<lparr>status = s, parsed = Stalled\<rparr>)))
           = Pending"
    and "outcome (syncExpenses days (always (Responds t \<lparr>status = s, parsed = Stalled\<rparr>)))
           = Pending"
    and "outcome (fetchAuthStatus (always (Responds t \<lparr>status = s, parsed = Stalled\<rparr>)))
           = Pending"
    and "outcome (fetchExpenses params (always (Responds t \<lparr>status = s, parsed = Broken\<rparr>)))
           = Rejected TypeError"
  using assms
  by (simp_all add: fetchExpenses_def syncExpenses_def fetchAuthStatus_def fetch_def always_def
      ok_def response_json_def)

text \<open>
  An example of the URL itself: the filters 2024, the empty string and \<open>Food & Drink\<close>.
\<close>

lemma expenses_url_example:
  "expenses_url (Some \<lparr>year = Some ''2024'', month = Some [], category = Some ''Food & Drink''\<rparr>)
     = ''/api/expenses?year=2024&category=Food+%26+Drink''"
  by (simp add: expenses_url_def expenses_search_params_def set_if_truthy_def opt_chain_def
      form_encode_def form_encode_byte_def form_safe_def hex_digit_def API_BASE_def)

end
